theory Spec2Isabelle
  imports Complex_Main "HOL-Library.AList" "HOL-Library.Multiset" "HOL-Library.Sublist"
begin

section \<open>Numbers\<close>

text \<open>
  The sources are TypeScript. A \<^verbatim>\<open>number\<close> that carries a score, a threshold or a
  weight is modelled as a \<^typ>\<open>real\<close>: comparisons and the four operations are the exact
  ones, rounding of IEEE doubles is not modelled. A \<^verbatim>\<open>number\<close> that is used as a
  count (\<^verbatim>\<open>maxIterations\<close>, \<^verbatim>\<open>maxOptimizationsPerCycle\<close>,
  \<^verbatim>\<open>ensembleSize\<close>, timestamps, loop counters) is a \<^typ>\<open>nat\<close>. A
  \<^verbatim>\<open>Map\<close> whose iteration order matters is an association list in insertion order,
  \<^verbatim>\<open>Map.set\<close> being \<^const>\<open>AList.update\<close>.
\<close>

section \<open>Feedback optimizer: \<^verbatim>\<open>RealTimeOptimizer\<close> (lib/realtime-optimizer.ts)\<close>

subsection \<open>Data model\<close>

datatype loop_type = Performance | Quality | Efficiency | UserSatisfaction

datatype trend = Improving | Declining | Stable

datatype severity = Low | Medium | High | Critical

datatype action_type =
  Parameter_adjustment | Model_switch | Technique_change | Resource_allocation | Algorithm_tuning






record FeedbackTrigger =
  metric :: string
  threshold :: real
  currentValue :: real
  trigger_trend :: trend
  trigger_severity :: severity

record OptimizationAction =
  action_kind :: action_type
  parameters :: "(string \<times> string) list"
  priority :: real
  estimatedImpact :: real

record OptimizationResult =
  success :: bool
  improvement :: real
  sideEffects :: "string list"

record FeedbackLoop =
  loop_id :: "nat \<times> string"
  loop_kind :: loop_type
  trigger :: FeedbackTrigger
  action :: OptimizationAction
  result :: OptimizationResult
  timestamp :: nat
  loop_iteration :: nat

record Thresholds =
  critical :: real
  low :: real
  medium :: real

text \<open>
  \<^verbatim>\<open>createFeedbackLoop\<close> reads the clock twice and draws one random suffix for the
  identifier; the three values are an input of the model. The fields
  \<^verbatim>\<open>newMetrics\<close> and \<^verbatim>\<open>processingTime\<close> of a result (a fresh random sample and a
  duration) are left out of \<^typ>\<open>OptimizationResult\<close>.
\<close>

record Entropy =
  id_time :: nat
  id_suffix :: string
  stamp_time :: nat

subsection \<open>Thresholds and metric evaluation\<close>

text \<open>
  The table of \<^verbatim>\<open>getThresholds\<close> as the object literal lists it (the key
  \<^verbatim>\<open>scalability\<close> occurs twice, with the same thresholds), and the lookup with its
  default. The names looked up are the field names of the four metric records.
\<close>

definition threshold_table :: "(string \<times> Thresholds) list" where
  "threshold_table =
    [(''processingSpeed'', \<lparr>critical = 0.3, low = 0.5, medium = 0.7\<rparr>),
     (''memoryUsage'', \<lparr>critical = 0.8, low = 0.6, medium = 0.4\<rparr>),
     (''responseTime'', \<lparr>critical = 0.3, low = 0.5, medium = 0.7\<rparr>),
     (''throughput'', \<lparr>critical = 0.4, low = 0.6, medium = 0.8\<rparr>),
     (''scalability'', \<lparr>critical = 0.4, low = 0.6, medium = 0.7\<rparr>),
     (''accuracy'', \<lparr>critical = 0.5, low = 0.7, medium = 0.8\<rparr>),
     (''consistency'', \<lparr>critical = 0.6, low = 0.75, medium = 0.85\<rparr>),
     (''robustness'', \<lparr>critical = 0.5, low = 0.65, medium = 0.75\<rparr>),
     (''fidelity'', \<lparr>critical = 0.6, low = 0.75, medium = 0.8\<rparr>),
     (''innovation'', \<lparr>critical = 0.4, low = 0.6, medium = 0.7\<rparr>),
     (''resourceUtilization'', \<lparr>critical = 0.8, low = 0.6, medium = 0.4\<rparr>),
     (''energyEfficiency'', \<lparr>critical = 0.4, low = 0.6, medium = 0.7\<rparr>),
     (''costEffectiveness'', \<lparr>critical = 0.5, low = 0.65, medium = 0.8\<rparr>),
     (''timeEfficiency'', \<lparr>critical = 0.4, low = 0.6, medium = 0.75\<rparr>),
     (''scalability'', \<lparr>critical = 0.4, low = 0.6, medium = 0.7\<rparr>),
     (''engagement'', \<lparr>critical = 0.4, low = 0.6, medium = 0.7\<rparr>),
     (''retention'', \<lparr>critical = 0.5, low = 0.65, medium = 0.8\<rparr>),
     (''satisfaction'', \<lparr>critical = 0.5, low = 0.65, medium = 0.75\<rparr>),
     (''feedbackScore'', \<lparr>critical = 0.4, low = 0.6, medium = 0.7\<rparr>),
     (''recommendation'', \<lparr>critical = 0.5, low = 0.65, medium = 0.8\<rparr>)]"

definition getThresholds :: "string \<Rightarrow> Thresholds" where
  "getThresholds metricName =
    (case map_of threshold_table metricName of
       Some t \<Rightarrow> t
     | None \<Rightarrow> \<lparr>critical = 0.3, low = 0.5, medium = 0.7\<rparr>)"

definition default_action :: OptimizationAction where
  "default_action =
    \<lparr>action_kind = Parameter_adjustment,
     parameters = [(''generalOptimization'', ''true'')],
     priority = 5, estimatedImpact = 0.1\<rparr>"

definition action_table :: "(string \<times> OptimizationAction) list" where
  "action_table =
    [(''processingSpeed'',
        \<lparr>action_kind = Parameter_adjustment,
         parameters = [(''boostProcessing'', ''true''), (''priorityLevel'', ''high'')],
         priority = 9, estimatedImpact = 0.3\<rparr>),
     (''memoryUsage'',
        \<lparr>action_kind = Resource_allocation,
         parameters = [(''optimizeMemory'', ''true''), (''cleanupEnabled'', ''true'')],
         priority = 8, estimatedImpact = 0.25\<rparr>),
     (''responseTime'',
        \<lparr>action_kind = Algorithm_tuning,
         parameters = [(''optimizeAlgorithm'', ''true''), (''cacheEnabled'', ''true'')],
         priority = 8, estimatedImpact = 0.2\<rparr>),
     (''accuracy'',
        \<lparr>action_kind = Model_switch,
         parameters = [(''useAdvancedModel'', ''true''), (''ensembleEnabled'', ''true'')],
         priority = 9, estimatedImpact = 0.35\<rparr>),
     (''consistency'',
        \<lparr>action_kind = Technique_change,
         parameters = [(''consistencyCheck'', ''true''), (''validationEnabled'', ''true'')],
         priority = 7, estimatedImpact = 0.2\<rparr>),
     (''innovation'',
        \<lparr>action_kind = Algorithm_tuning,
         parameters = [(''creativeMode'', ''true''), (''explorationEnabled'', ''true'')],
         priority = 6, estimatedImpact = 0.15\<rparr>),
     (''resourceUtilization'',
        \<lparr>action_kind = Resource_allocation,
         parameters = [(''optimizeResources'', ''true''), (''loadBalancing'', ''true'')],
         priority = 8, estimatedImpact = 0.3\<rparr>),
     (''energyEfficiency'',
        \<lparr>action_kind = Parameter_adjustment,
         parameters = [(''powerSaving'', ''true''), (''efficiencyMode'', ''true'')],
         priority = 7, estimatedImpact = 0.2\<rparr>),
     (''engagement'',
        \<lparr>action_kind = Technique_change,
         parameters = [(''enhanceUX'', ''true''), (''interactiveFeatures'', ''true'')],
         priority = 8, estimatedImpact = 0.25\<rparr>),
     (''satisfaction'',
        \<lparr>action_kind = Parameter_adjustment,
         parameters = [(''qualityFocus'', ''true''), (''userCentric'', ''true'')],
         priority = 9, estimatedImpact = 0.3\<rparr>)]"

definition generateOptimizationAction :: "FeedbackTrigger \<Rightarrow> loop_type \<Rightarrow> OptimizationAction" where
  "generateOptimizationAction trg ty =
    (case map_of action_table (metric trg) of Some a \<Rightarrow> a | None \<Rightarrow> default_action)"

definition createFeedbackLoop ::
  "Entropy \<Rightarrow> nat \<Rightarrow> string \<Rightarrow> real \<Rightarrow> real \<Rightarrow> loop_type \<Rightarrow> severity \<Rightarrow> FeedbackLoop" where
  "createFeedbackLoop e loops_size metricName val thr ty sev =
    (let trg = \<lparr>metric = metricName, threshold = thr, currentValue = val,
                 trigger_trend = Declining, trigger_severity = sev\<rparr>
     in \<lparr>loop_id = (id_time e, id_suffix e),
         loop_kind = ty,
         trigger = trg,
         action = generateOptimizationAction trg ty,
         result = \<lparr>success = False, improvement = 0, sideEffects = []\<rparr>,
         timestamp = stamp_time e,
         loop_iteration = loops_size + 1\<rparr>)"

definition evaluateMetric ::
  "Entropy \<Rightarrow> nat \<Rightarrow> string \<Rightarrow> real \<Rightarrow> loop_type \<Rightarrow> FeedbackLoop option" where
  "evaluateMetric e loops_size metricName val ty =
    (let thresholds = getThresholds metricName in
     if val < critical thresholds then
       Some (createFeedbackLoop e loops_size metricName val (critical thresholds) ty Critical)
     else if val < low thresholds then
       Some (createFeedbackLoop e loops_size metricName val (low thresholds) ty High)
     else if val < medium thresholds then
       Some (createFeedbackLoop e loops_size metricName val (medium thresholds) ty Medium)
     else None)"

subsection \<open>One optimization cycle\<close>














subsection \<open>Scheduling: \<^verbatim>\<open>initialize\<close>, \<^verbatim>\<open>start\<close>, \<^verbatim>\<open>stop\<close> and the interval timer\<close>

text \<open>
  The scheduler as a state machine over the events of the JavaScript event loop.
  \<^verbatim>\<open>startOptimizationCycle\<close> registers an interval timer that is never cleared; its
  callback enters \<^verbatim>\<open>runOptimizationCycle\<close> when \<^verbatim>\<open>isOptimizing\<close> is false. A cycle
  is in flight from the assignment \<^verbatim>\<open>isOptimizing = true\<close> to the
  \<^verbatim>\<open>finally\<close> block. \<open>cycles_begun\<close> counts the entries into
  \<^verbatim>\<open>runOptimizationCycle\<close>, \<open>cycles_completed\<close> the cycles that reached the
  \<^verbatim>\<open>finally\<close> block; both are observations, not fields of the class.
\<close>

datatype event = Initialize | Start | Stop | Timer_fires | Cycle_finishes

record Scheduler =
  sched_enabled :: bool
  sched_optimizing :: bool
  timers :: nat
  cycles_begun :: nat
  cycles_completed :: nat

definition startOptimizationCycle :: "Scheduler \<Rightarrow> Scheduler" where
  "startOptimizationCycle s = s\<lparr>timers := timers s + 1\<rparr>"

fun step :: "event \<Rightarrow> Scheduler \<Rightarrow> Scheduler" where
  "step Initialize s = (if sched_enabled s then startOptimizationCycle s else s)"
| "step Start s = startOptimizationCycle (s\<lparr>sched_enabled := True\<rparr>)"
| "step Stop s = s\<lparr>sched_enabled := False\<rparr>"
| "step Timer_fires s =
    (if timers s > 0 \<and> \<not> sched_optimizing s
     then s\<lparr>sched_optimizing := True, cycles_begun := cycles_begun s + 1\<rparr>
     else s)"
| "step Cycle_finishes s =
    (if sched_optimizing s
     then s\<lparr>sched_optimizing := False, cycles_completed := cycles_completed s + 1\<rparr>
     else s)"

definition run_events :: "event list \<Rightarrow> Scheduler \<Rightarrow> Scheduler" where
  "run_events evs s = fold step evs s"

text \<open>The optimizer as constructed with the default configuration.\<close>

definition new_scheduler :: Scheduler where
  "new_scheduler =
    \<lparr>sched_enabled = True, sched_optimizing = False, timers = 0,
     cycles_begun = 0, cycles_completed = 0\<rparr>"

section \<open>Refinement engine: \<^verbatim>\<open>RefinementEngine\<close> (lib/realtime-optimizer.ts, second module)\<close>

subsection \<open>Data model\<close>

record TechnicalQuality =
  resolution :: real
  clarity :: real
  noise :: real
  artifacts :: real
  compression :: real
  sharpness :: real

record ArtisticQuality =
  composition :: real
  colorHarmony :: real
  balance :: real
  contrast :: real
  creativity :: real
  originality :: real
  aestheticAppeal :: real

record SemanticQuality =
  coherence :: real
  relevance :: real
  depth :: real
  consistency :: real
  conceptualClarity :: real
  meaningFulness :: real

record UserPreferenceQuality =
  styleAlignment :: real
  promptAdherence :: real
  emotionalResonance :: real
  visualSatisfaction :: real

record QualityMetrics =
  overall :: real
  technical :: TechnicalQuality
  artistic :: ArtisticQuality
  semantic :: SemanticQuality
  userPreference :: UserPreferenceQuality

text \<open>
  One refinement step. \<^verbatim>\<open>improvements\<close> has the shape of the metrics and holds
  the differences; \<^verbatim>\<open>processingTime\<close>, a duration, is left out.
\<close>

record RefinementStep =
  step_iteration :: nat
  inputImage :: string
  outputImage :: string
  qualityBefore :: QualityMetrics
  qualityAfter :: QualityMetrics
  improvements :: QualityMetrics
  techniquesApplied :: "string list"

datatype technique_category = Technical | Artistic | Semantic | Composite

datatype strategy = Conservative | Balanced | Aggressive

text \<open>
  A technique. \<^verbatim>\<open>apply\<close> returns the refined image, or \<open>None\<close> when the promise
  is rejected.
\<close>

record RefinementTechnique =
  tech_name :: string
  category :: technique_category
  strength :: real
  applicability :: "QualityMetrics \<Rightarrow> bool"
  apply_technique :: "string \<Rightarrow> string option"

record RefinementConfig =
  maxIterations :: nat
  qualityThreshold :: real
  improvementThreshold :: real
  techniques :: "RefinementTechnique list"
  adaptiveStrategy :: strategy

subsection \<open>Quality assessment\<close>

text \<open>
  The reply of the assessment backend to one call of \<^verbatim>\<open>assessQuality\<close>:
  \<^item> \<open>Call_failed\<close>: the call \<^verbatim>\<open>zai.chat.completions.create\<close> throws or is rejected,
    or the response has no \<^verbatim>\<open>choices\<close> array;
  \<^item> \<open>No_content\<close>: \<^verbatim>\<open>response.choices[0]?.message?.content\<close> is missing or empty;
  \<^item> \<open>Unparsable\<close>: \<^verbatim>\<open>JSON.parse\<close> throws on the content, or parses it to
    \<^verbatim>\<open>null\<close>;
  \<^item> \<open>Parsed d\<close>: the content parses to the object \<open>d\<close>.
  A parsed object is given by its numeric properties: \<open>raw_overall\<close> is
  \<^verbatim>\<open>data.overall\<close> and \<open>raw_groups\<close> lists the sub-objects
  (\<^verbatim>\<open>data.technical\<close>, ...) that are present with their numeric properties; a
  property that is absent is absent from the list.
\<close>

record RawQuality =
  raw_overall :: "real option"
  raw_groups :: "(string \<times> (string \<times> real) list) list"

datatype reply = Call_failed | No_content | Unparsable | Parsed RawQuality

text \<open>\<^verbatim>\<open>x || 0.5\<close> on an optional number: zero is falsy as well.\<close>

definition or_half :: "real option \<Rightarrow> real" where
  "or_half x = (case x of None \<Rightarrow> 0.5 | Some v \<Rightarrow> if v = 0 then 0.5 else v)"

text \<open>\<^verbatim>\<open>data.grp?.fld || 0.5\<close> for a sub-object \<open>grp\<close> and a property \<open>fld\<close>\<close>

definition sub_score :: "RawQuality \<Rightarrow> string \<Rightarrow> string \<Rightarrow> real" where
  "sub_score d grp fld =
    (case map_of (raw_groups d) grp of
       None \<Rightarrow> 0.5
     | Some obj \<Rightarrow> or_half (map_of obj fld))"

definition processQualityMetrics :: "RawQuality \<Rightarrow> QualityMetrics" where
  "processQualityMetrics d =
    \<lparr>overall = or_half (raw_overall d),
     technical =
       \<lparr>resolution = sub_score d ''technical'' ''resolution'',
        clarity = sub_score d ''technical'' ''clarity'',
        noise = sub_score d ''technical'' ''noise'',
        artifacts = sub_score d ''technical'' ''artifacts'',
        compression = sub_score d ''technical'' ''compression'',
        sharpness = sub_score d ''technical'' ''sharpness''\<rparr>,
     artistic =
       \<lparr>composition = sub_score d ''artistic'' ''composition'',
        colorHarmony = sub_score d ''artistic'' ''colorHarmony'',
        balance = sub_score d ''artistic'' ''balance'',
        contrast = sub_score d ''artistic'' ''contrast'',
        creativity = sub_score d ''artistic'' ''creativity'',
        originality = sub_score d ''artistic'' ''originality'',
        aestheticAppeal = sub_score d ''artistic'' ''aestheticAppeal''\<rparr>,
     semantic =
       \<lparr>coherence = sub_score d ''semantic'' ''coherence'',
        relevance = sub_score d ''semantic'' ''relevance'',
        depth = sub_score d ''semantic'' ''depth'',
        consistency = sub_score d ''semantic'' ''consistency'',
        conceptualClarity = sub_score d ''semantic'' ''conceptualClarity'',
        meaningFulness = sub_score d ''semantic'' ''meaningFulness''\<rparr>,
     userPreference =
       \<lparr>styleAlignment = sub_score d ''userPreference'' ''styleAlignment'',
        promptAdherence = sub_score d ''userPreference'' ''promptAdherence'',
        emotionalResonance = sub_score d ''userPreference'' ''emotionalResonance'',
        visualSatisfaction = sub_score d ''userPreference'' ''visualSatisfaction''\<rparr>\<rparr>"

definition getDefaultQualityMetrics :: QualityMetrics where
  "getDefaultQualityMetrics =
    \<lparr>overall = 0.5,
     technical =
       \<lparr>resolution = 0.5, clarity = 0.5, noise = 0.5, artifacts = 0.5,
        compression = 0.5, sharpness = 0.5\<rparr>,
     artistic =
       \<lparr>composition = 0.5, colorHarmony = 0.5, balance = 0.5, contrast = 0.5,
        creativity = 0.5, originality = 0.5, aestheticAppeal = 0.5\<rparr>,
     semantic =
       \<lparr>coherence = 0.5, relevance = 0.5, depth = 0.5, consistency = 0.5,
        conceptualClarity = 0.5, meaningFulness = 0.5\<rparr>,
     userPreference =
       \<lparr>styleAlignment = 0.5, promptAdherence = 0.5, emotionalResonance = 0.5,
        visualSatisfaction = 0.5\<rparr>\<rparr>"

text \<open>
  \<^verbatim>\<open>assessQuality\<close>, as a function of the backend's reply: the \<^verbatim>\<open>catch\<close>
  block and the test \<^verbatim>\<open>!content\<close> return the default metrics.
\<close>

fun assessQuality :: "reply \<Rightarrow> QualityMetrics" where
  "assessQuality Call_failed = getDefaultQualityMetrics"
| "assessQuality No_content = getDefaultQualityMetrics"
| "assessQuality Unparsable = getDefaultQualityMetrics"
| "assessQuality (Parsed d) = processQualityMetrics d"


definition calculateImprovements :: "QualityMetrics \<Rightarrow> QualityMetrics \<Rightarrow> QualityMetrics" where
  "calculateImprovements before after =
    \<lparr>overall = overall after - overall before,
     technical =
       \<lparr>resolution = resolution (technical after) - resolution (technical before),
        clarity = clarity (technical after) - clarity (technical before),
        noise = noise (technical after) - noise (technical before),
        artifacts = artifacts (technical after) - artifacts (technical before),
        compression = compression (technical after) - compression (technical before),
        sharpness = sharpness (technical after) - sharpness (technical before)\<rparr>,
     artistic =
       \<lparr>composition = composition (artistic after) - composition (artistic before),
        colorHarmony = colorHarmony (artistic after) - colorHarmony (artistic before),
        balance = balance (artistic after) - balance (artistic before),
        contrast = contrast (artistic after) - contrast (artistic before),
        creativity = creativity (artistic after) - creativity (artistic before),
        originality = originality (artistic after) - originality (artistic before),
        aestheticAppeal = aestheticAppeal (artistic after) - aestheticAppeal (artistic before)\<rparr>,
     semantic =
       \<lparr>coherence = coherence (semantic after) - coherence (semantic before),
        relevance = relevance (semantic after) - relevance (semantic before),
        depth = depth (semantic after) - depth (semantic before),
        consistency = consistency (semantic after) - consistency (semantic before),
        conceptualClarity = conceptualClarity (semantic after) - conceptualClarity (semantic before),
        meaningFulness = meaningFulness (semantic after) - meaningFulness (semantic before)\<rparr>,
     userPreference =
       \<lparr>styleAlignment =
          styleAlignment (userPreference after) - styleAlignment (userPreference before),
        promptAdherence =
          promptAdherence (userPreference after) - promptAdherence (userPreference before),
        emotionalResonance =
          emotionalResonance (userPreference after) - emotionalResonance (userPreference before),
        visualSatisfaction =
          visualSatisfaction (userPreference after) - visualSatisfaction (userPreference before)\<rparr>\<rparr>"

subsection \<open>Technique selection and application\<close>

definition technique_score :: "QualityMetrics \<Rightarrow> RefinementConfig \<Rightarrow> RefinementTechnique \<Rightarrow> real" where
  "technique_score currentQuality cfg tech =
    (let s0 = strength tech;
         s1 = (if category tech = Technical \<and> clarity (technical currentQuality) < 0.7
               then s0 + 0.3 else s0);
         s2 = (if category tech = Artistic \<and> composition (artistic currentQuality) < 0.7
               then s1 + 0.3 else s1);
         s3 = (if category tech = Semantic \<and> coherence (semantic currentQuality) < 0.7
               then s2 + 0.3 else s2)
     in if adaptiveStrategy cfg = Aggressive then s3 * 1.2
        else if adaptiveStrategy cfg = Conservative then s3 * 0.8
        else s3)"

text \<open>
  \<^verbatim>\<open>selectBestTechnique\<close>: \<^verbatim>\<open>reduce\<close> without an initial value starts from the
  first element and keeps the earlier technique on a tie. It is called on a non-empty
  list only, given here by its head and tail.
\<close>

definition selectBestTechnique ::
  "RefinementTechnique \<Rightarrow> RefinementTechnique list \<Rightarrow> QualityMetrics \<Rightarrow> RefinementConfig
   \<Rightarrow> RefinementTechnique" where
  "selectBestTechnique t ts currentQuality cfg =
    fold (\<lambda>current best.
            if technique_score currentQuality cfg current > technique_score currentQuality cfg best
            then current else best) ts t"

text \<open>
  \<^verbatim>\<open>basicEnhancement\<close> returns the image it is given, whether its backend call
  succeeds or not.
\<close>

definition basicEnhancement :: "string \<Rightarrow> string" where
  "basicEnhancement img = img"

definition applyRefinement ::
  "string \<Rightarrow> RefinementTechnique \<Rightarrow> RefinementTechnique list \<Rightarrow> QualityMetrics \<Rightarrow> RefinementConfig
   \<Rightarrow> string \<times> string list" where
  "applyRefinement img t ts currentQuality cfg =
    (let selectedTechnique = selectBestTechnique t ts currentQuality cfg
     in case apply_technique selectedTechnique img of
          Some refinedImage \<Rightarrow> (refinedImage, [tech_name selectedTechnique])
        | None \<Rightarrow> (basicEnhancement img, [''basic-enhancement'']))"

definition checkConvergence :: "QualityMetrics \<Rightarrow> RefinementConfig \<Rightarrow> bool" where
  "checkConvergence q cfg = (overall q \<ge> qualityThreshold cfg)"

text \<open>
  \<^verbatim>\<open>calculateTotalImprovement\<close>. The list is read at its first and last element only
  when it is not empty.
\<close>

definition calculateTotalImprovement :: "RefinementStep list \<Rightarrow> real" where
  "calculateTotalImprovement stps =
    (case stps of
       [] \<Rightarrow> 0
     | s # rest \<Rightarrow> overall (qualityAfter (last (s # rest))) - overall (qualityBefore s))"

subsection \<open>The refinement loop\<close>

text \<open>
  The local variables of \<^verbatim>\<open>refineImage\<close>; the histories kept in the fields of the
  engine are copies of what the steps hold. The backend is given as the function
  from the number of the assessment call within the run (0 for the initial image) and the
  image sent to the reply.
\<close>

record LoopState =
  currentImage :: string
  currentQuality :: QualityMetrics
  iteration :: nat
  converged :: bool
  steps :: "RefinementStep list"

text \<open>The body of the \<^verbatim>\<open>while\<close> loop after the test for applicable techniques.\<close>

definition loop_body ::
  "RefinementConfig \<Rightarrow> (nat \<Rightarrow> string \<Rightarrow> reply) \<Rightarrow> RefinementTechnique \<Rightarrow> RefinementTechnique list
   \<Rightarrow> LoopState \<Rightarrow> LoopState" where
  "loop_body cfg backend t ts st =
    (let (img, techniquesUsed) =
           applyRefinement (currentImage st) t ts (currentQuality st) cfg;
         newQuality = assessQuality (backend (iteration st + 1) img);
         stp = \<lparr>step_iteration = iteration st,
                 inputImage = currentImage st,
                 outputImage = img,
                 qualityBefore = currentQuality st,
                 qualityAfter = newQuality,
                 improvements = calculateImprovements (currentQuality st) newQuality,
                 techniquesApplied = techniquesUsed\<rparr>
     in \<lparr>currentImage = img,
         currentQuality = newQuality,
         iteration = iteration st + 1,
         converged = checkConvergence newQuality cfg,
         steps = steps st @ [stp]\<rparr>)"

lemma iteration_loop_body [simp]:
  "iteration (loop_body cfg backend t ts st) = iteration st + 1"
  by (simp add: loop_body_def Let_def split: prod.split)

function refine_loop ::
  "RefinementConfig \<Rightarrow> (nat \<Rightarrow> string \<Rightarrow> reply) \<Rightarrow> LoopState \<Rightarrow> LoopState" where
  "refine_loop cfg backend st =
    (if iteration st < maxIterations cfg \<and> \<not> converged st then
       (case filter (\<lambda>tech. applicability tech (currentQuality st)) (techniques cfg) of
          [] \<Rightarrow> st
        | t # ts \<Rightarrow> refine_loop cfg backend (loop_body cfg backend t ts st))
     else st)"
  by pat_completeness auto
termination
  by (relation "measure (\<lambda>(cfg, backend, st). maxIterations cfg - iteration st)") auto

declare refine_loop.simps [simp del]

record RefinementResult =
  finalImage :: string
  final_quality :: QualityMetrics
  result_steps :: "RefinementStep list"
  totalImprovement :: real
  result_converged :: bool

definition initial_state :: "(nat \<Rightarrow> string \<Rightarrow> reply) \<Rightarrow> string \<Rightarrow> LoopState" where
  "initial_state backend initialImage =
    \<lparr>currentImage = initialImage,
     currentQuality = assessQuality (backend 0 initialImage),
     iteration = 0,
     converged = False,
     steps = []\<rparr>"

definition refineImage ::
  "(nat \<Rightarrow> string \<Rightarrow> reply) \<Rightarrow> string \<Rightarrow> RefinementConfig \<Rightarrow> RefinementResult" where
  "refineImage backend initialImage fullConfig =
    (let st = refine_loop fullConfig backend (initial_state backend initialImage)
     in \<lparr>finalImage = currentImage st,
         final_quality = currentQuality st,
         result_steps = steps st,
         totalImprovement = calculateTotalImprovement (steps st),
         result_converged = converged st\<rparr>)"

text \<open>The techniques registered by \<^verbatim>\<open>initializeTechniques\<close>, in registration order.\<close>

definition registered_techniques :: "RefinementTechnique list" where
  "registered_techniques =
    [\<lparr>tech_name = ''Clarity Enhancement'', category = Technical, strength = 0.8,
      applicability = (\<lambda>m. clarity (technical m) < 0.8), apply_technique = Some\<rparr>,
     \<lparr>tech_name = ''Noise Reduction'', category = Technical, strength = 0.7,
      applicability = (\<lambda>m. noise (technical m) > 0.3), apply_technique = Some\<rparr>,
     \<lparr>tech_name = ''Composition Balance'', category = Artistic, strength = 0.9,
      applicability = (\<lambda>m. composition (artistic m) < 0.7), apply_technique = Some\<rparr>,
     \<lparr>tech_name = ''Color Harmonization'', category = Artistic, strength = 0.8,
      applicability = (\<lambda>m. colorHarmony (artistic m) < 0.7), apply_technique = Some\<rparr>,
     \<lparr>tech_name = ''Semantic Coherence'', category = Semantic, strength = 0.9,
      applicability = (\<lambda>m. coherence (semantic m) < 0.7), apply_technique = Some\<rparr>,
     \<lparr>tech_name = ''Conceptual Clarity'', category = Semantic, strength = 0.8,
      applicability = (\<lambda>m. conceptualClarity (semantic m) < 0.7), apply_technique = Some\<rparr>]"

definition default_refinement_config :: RefinementConfig where
  "default_refinement_config =
    \<lparr>maxIterations = 5, qualityThreshold = 0.85, improvementThreshold = 0.02,
     techniques = registered_techniques, adaptiveStrategy = Balanced\<rparr>"

subsection \<open>Invariants of the refinement loop\<close>

text \<open>
  Two invariants of the \<^verbatim>\<open>while\<close> loop, used in the proofs below. The first: every
  step but the last was assessed below the threshold, and once a step exists
  \<^verbatim>\<open>converged\<close> says whether the last one reached it. The second: the first step
  starts from the initial assessment, the current quality is that of the last step, and
  the current quality is not below the initial one if no step lowered the score.
\<close>

definition stops_at_threshold :: "RefinementConfig \<Rightarrow> LoopState \<Rightarrow> bool" where
  "stops_at_threshold cfg st =
    ((\<forall>s\<in>set (butlast (steps st)). overall (qualityAfter s) < qualityThreshold cfg)
     \<and> (steps st = [] \<longrightarrow> \<not> converged st)
     \<and> (steps st \<noteq> [] \<longrightarrow>
          converged st = (qualityThreshold cfg \<le> overall (qualityAfter (last (steps st))))
          \<and> currentQuality st = qualityAfter (last (steps st))))"

definition tracks_initial :: "QualityMetrics \<Rightarrow> LoopState \<Rightarrow> bool" where
  "tracks_initial q0 st =
    ((steps st = [] \<longrightarrow> currentQuality st = q0)
     \<and> (steps st \<noteq> [] \<longrightarrow>
          qualityBefore (hd (steps st)) = q0
          \<and> currentQuality st = qualityAfter (last (steps st)))
     \<and> ((\<forall>s\<in>set (steps st). overall (qualityBefore s) \<le> overall (qualityAfter s))
          \<longrightarrow> overall q0 \<le> overall (currentQuality st)))"

section \<open>Adaptive fusion: \<^verbatim>\<open>StyleTransferEngine\<close> (lib/socket.ts, second module)\<close>

subsection \<open>Data model\<close>








subsection \<open>Blend weights\<close>




subsection \<open>The fusion map\<close>









section \<open>Ensemble generation and fusion: \<^verbatim>\<open>AMSSEngine\<close> (lib/amss-engine.ts)\<close>













section \<open>Analysis cache: \<^verbatim>\<open>SemanticAnalyzer\<close> (semantic analyzer module)\<close>

text \<open>
  The options of \<^verbatim>\<open>analyzeImage\<close> are an object: its properties in insertion order.
  A string is a list of UTF-16 code units, of which \<^verbatim>\<open>substring(0, 50)\<close> takes the
  first fifty. \<^verbatim>\<open>JSON.stringify\<close> is a parameter of the model.
\<close>

datatype option_value = OStr string | OBool bool

type_synonym AnalysisOptions = "(string \<times> option_value) list"

definition generateCacheKey :: "(AnalysisOptions \<Rightarrow> string) \<Rightarrow> string \<Rightarrow> AnalysisOptions \<Rightarrow> string" where
  "generateCacheKey stringify image_data options = take 50 image_data @ ''_'' @ stringify options"

text \<open>
  The five phases of an analysis call the backend and catch its errors; what they
  produce is a payload of type \<open>'a\<close>.
\<close>

record 'a AnalyzerBackend =
  extractConcepts :: "string \<Rightarrow> string \<Rightarrow> 'a"
  buildSemanticGraph :: "'a \<Rightarrow> 'a"
  analyzeStyle :: "string \<Rightarrow> 'a"
  analyzeEmotionalContent :: "string \<Rightarrow> 'a \<Rightarrow> 'a"
  analyzeCulturalContext :: "string \<Rightarrow> 'a \<Rightarrow> 'a"

record 'a Analysis =
  concepts :: 'a
  graph :: 'a
  styleSignature :: "'a option"
  emotionalProfile :: "'a option"
  culturalContext :: "'a option"

text \<open>The destructuring defaults of \<^verbatim>\<open>analyzeImage\<close>.\<close>

definition option_depth :: "AnalysisOptions \<Rightarrow> string" where
  "option_depth options =
    (case map_of options ''depth'' of Some (OStr d) \<Rightarrow> d | _ \<Rightarrow> ''detailed'')"

definition option_flag :: "AnalysisOptions \<Rightarrow> string \<Rightarrow> bool \<Rightarrow> bool" where
  "option_flag options name dflt =
    (case map_of options name of
       None \<Rightarrow> dflt
     | Some (OBool b) \<Rightarrow> b
     | Some (OStr s) \<Rightarrow> s \<noteq> [])"

text \<open>
  \<^verbatim>\<open>analyzeImage\<close> on the cache: the result and the cache after the call.
\<close>

definition analyzeImage ::
  "(AnalysisOptions \<Rightarrow> string) \<Rightarrow> 'a AnalyzerBackend \<Rightarrow> (string \<times> 'a Analysis) list \<Rightarrow> string
   \<Rightarrow> AnalysisOptions \<Rightarrow> 'a Analysis \<times> (string \<times> 'a Analysis) list" where
  "analyzeImage stringify backend analysisCache image_data options =
    (let cacheKey = generateCacheKey stringify image_data options
     in case map_of analysisCache cacheKey of
          Some cached \<Rightarrow> (cached, analysisCache)
        | None \<Rightarrow>
            (let cs = extractConcepts backend image_data (option_depth options);
                 g = buildSemanticGraph backend cs;
                 res = \<lparr>concepts = cs,
                        graph = g,
                        styleSignature =
                          (if option_flag options ''includeStyle'' True
                           then Some (analyzeStyle backend image_data) else None),
                        emotionalProfile =
                          (if option_flag options ''includeEmotional'' True
                           then Some (analyzeEmotionalContent backend image_data cs) else None),
                        culturalContext =
                          (if option_flag options ''includeCultural'' False
                           then Some (analyzeCulturalContext backend image_data cs) else None)\<rparr>
             in (res, AList.update cacheKey res analysisCache)))"

text \<open>
  A sequence of further calls, each with its own backend, image and options, none of
  them \<^verbatim>\<open>clearCache\<close>: the cache after them.
\<close>

definition cache_after ::
  "(AnalysisOptions \<Rightarrow> string) \<Rightarrow> ('a AnalyzerBackend \<times> string \<times> AnalysisOptions) list
   \<Rightarrow> (string \<times> 'a Analysis) list \<Rightarrow> (string \<times> 'a Analysis) list" where
  "cache_after stringify calls analysisCache =
    fold (\<lambda>(backend, image_data, options) c.
            snd (analyzeImage stringify backend c image_data options)) calls analysisCache"

section \<open>Concrete inputs\<close>





text \<open>
  Two assessment backends: one scores the initial image 0.6 and every refined image 0.4,
  the other scores 0.6, then 0.7, then 0.9. Neither reports sub-scores, so every
  sub-score is 0.5 and registered techniques stay applicable.
\<close>

definition declining_backend :: "nat \<Rightarrow> string \<Rightarrow> reply" where
  "declining_backend n img =
     (if n = 0 then Parsed \<lparr>raw_overall = Some 0.6, raw_groups = []\<rparr>
      else Parsed \<lparr>raw_overall = Some 0.4, raw_groups = []\<rparr>)"

definition improving_backend :: "nat \<Rightarrow> string \<Rightarrow> reply" where
  "improving_backend n img =
     (if n = 0 then Parsed \<lparr>raw_overall = Some 0.6, raw_groups = []\<rparr>
      else if n = 1 then Parsed \<lparr>raw_overall = Some 0.7, raw_groups = []\<rparr>
      else Parsed \<lparr>raw_overall = Some 0.9, raw_groups = []\<rparr>)"








text \<open>
  Two images that differ after their first fifty characters, a stand-in for
  \<^verbatim>\<open>JSON.stringify\<close> on the options, and a backend that answers every call with one
  payload.
\<close>

definition image_a :: string where
  "image_a = replicate 50 (CHR ''A'') @ ''first image''"

definition image_b :: string where
  "image_b = replicate 50 (CHR ''A'') @ ''another image''"

definition sample_stringify :: "AnalysisOptions \<Rightarrow> string" where
  "sample_stringify options =
    concat (map (\<lambda>(k, v). k @ '':'' @ (case v of OStr s \<Rightarrow> s
                                          | OBool b \<Rightarrow> if b then ''true'' else ''false'') @ '';'')
              options)"

definition constant_backend :: "string \<Rightarrow> string AnalyzerBackend" where
  "constant_backend answer =
    \<lparr>extractConcepts = (\<lambda>img d. answer),
     buildSemanticGraph = (\<lambda>cs. answer),
     analyzeStyle = (\<lambda>img. answer),
     analyzeEmotionalContent = (\<lambda>img cs. answer),
     analyzeCulturalContext = (\<lambda>img cs. answer)\<rparr>"

section \<open>Properties of the feedback optimizer\<close>

subsection \<open>Metric evaluation\<close>

text \<open>
  For a metric whose three thresholds are ordered \<open>critical \<le> low \<le> medium\<close> (low is
  bad), a value below \<open>critical\<close> yields a loop of severity \<open>Critical\<close> and a value at
  or above \<open>medium\<close> yields none.
\<close>

lemma evaluateMetric_below_critical:
  "val < critical (getThresholds metricName) \<Longrightarrow>
   map_option (\<lambda>l. trigger_severity (trigger l)) (evaluateMetric e n metricName val ty)
     = Some Critical"
  by (simp add: evaluateMetric_def createFeedbackLoop_def Let_def)

lemma evaluateMetric_at_least_medium:
  assumes "critical (getThresholds metricName) \<le> low (getThresholds metricName)"
    and "low (getThresholds metricName) \<le> medium (getThresholds metricName)"
    and "medium (getThresholds metricName) \<le> val"
  shows "evaluateMetric e n metricName val ty = None"
  using assms by (simp add: evaluateMetric_def Let_def)

text \<open>
  Claim C1. A value that breaches the critical threshold in the direction-aware sense
  must yield a feedback loop of severity critical, and a value that is no breach must
  yield none. \<^verbatim>\<open>evaluateMetric\<close> compares with \<open><\<close> for every metric, also for
  \<^verbatim>\<open>memoryUsage\<close> and \<^verbatim>\<open>resourceUtilization\<close>, whose tables are inverted
  (critical 0.8, low 0.6, medium 0.4: high is bad). So a resource utilization of 0.85,
  a value that \<^verbatim>\<open>collectMetrics\<close> can sample and that is above the critical threshold
  0.8, yields no feedback loop, as does a memory usage of 0.9; and a memory usage or a
  resource utilization of 0.1, below every threshold of the metric, yields a loop of
  severity critical.
\<close>

theorem evaluateMetric_ignores_direction:
  "evaluateMetric e n ''resourceUtilization'' 0.85 Efficiency = None
   \<and> evaluateMetric e n ''memoryUsage'' 0.9 Performance = None
   \<and> map_option (\<lambda>l. trigger_severity (trigger l))
        (evaluateMetric e n ''resourceUtilization'' 0.1 Efficiency) = Some Critical
   \<and> map_option (\<lambda>l. trigger_severity (trigger l))
        (evaluateMetric e n ''memoryUsage'' 0.1 Performance) = Some Critical"
  by (simp add: evaluateMetric_def getThresholds_def threshold_table_def
      createFeedbackLoop_def Let_def)

subsection \<open>Stopping the optimizer\<close>

lemma stop_keeps_timers: "timers (step Stop s) = timers s"
  by simp

lemma timer_after_stop_begins_cycle:
  "timers s > 0 \<Longrightarrow> \<not> sched_optimizing s \<Longrightarrow>
   cycles_begun (step Timer_fires (step Stop s)) = cycles_begun s + 1"
  by simp

lemma stop_leaves_cycle_in_flight:
  "sched_optimizing (step Stop s) = sched_optimizing s
   \<and> cycles_completed (step Cycle_finishes (step Stop s))
       = (if sched_optimizing s then cycles_completed s + 1 else cycles_completed s)"
  by simp

text \<open>
  Claim C3. After \<^verbatim>\<open>stop()\<close> no new optimization cycle may start.
  \<^verbatim>\<open>stop\<close> only clears the flag \<^verbatim>\<open>enableRealTimeOptimization\<close>; the interval
  timer registered by \<^verbatim>\<open>startOptimizationCycle\<close> stays, and its callback tests
  \<^verbatim>\<open>isOptimizing\<close> only. On an optimizer that was initialized and then stopped, no
  cycle has begun, and the next firing of the timer begins one.
\<close>

theorem cycle_begins_after_stop:
  "cycles_begun (run_events [Initialize, Stop] new_scheduler) = 0
   \<and> sched_enabled (run_events [Initialize, Stop] new_scheduler) = False
   \<and> cycles_begun (run_events [Initialize, Stop, Timer_fires] new_scheduler) = 1"
  by (simp add: run_events_def new_scheduler_def startOptimizationCycle_def)

subsection \<open>Selection of the optimizations of a cycle\<close>







section \<open>Properties of the refinement engine\<close>

lemma refine_loop_invariant:
  assumes init: "P st"
    and body: "\<And>st t ts. P st \<Longrightarrow> iteration st < maxIterations cfg \<Longrightarrow> \<not> converged st \<Longrightarrow>
                 filter (\<lambda>tech. applicability tech (currentQuality st)) (techniques cfg) = t # ts \<Longrightarrow>
                 P (loop_body cfg backend t ts st)"
  shows "P (refine_loop cfg backend st)"
  using init
proof (induction "maxIterations cfg - iteration st" arbitrary: st)
  case 0
  then have "\<not> iteration st < maxIterations cfg" by simp
  then have "refine_loop cfg backend st = st"
    by (simp add: refine_loop.simps)
  with 0 show ?case by simp
next
  case (Suc n)
  show ?case
  proof (cases "iteration st < maxIterations cfg \<and> \<not> converged st")
    case False
    then have "refine_loop cfg backend st = st"
      by (subst refine_loop.simps) auto
    with Suc.prems show ?thesis by simp
  next
    case go: True
    show ?thesis
    proof (cases "filter (\<lambda>tech. applicability tech (currentQuality st)) (techniques cfg)")
      case Nil
      with go have "refine_loop cfg backend st = st"
        by (subst refine_loop.simps) simp
      with Suc.prems show ?thesis by simp
    next
      case (Cons t ts)
      with go have unf: "refine_loop cfg backend st
                         = refine_loop cfg backend (loop_body cfg backend t ts st)"
        by (subst refine_loop.simps) simp
      have "P (loop_body cfg backend t ts st)"
        using body Suc.prems go Cons by blast
      moreover have "n = maxIterations cfg - iteration (loop_body cfg backend t ts st)"
        using Suc.hyps(2) by simp
      ultimately show ?thesis
        using Suc.hyps(1) unf by simp
    qed
  qed
qed

lemma loop_body_fields:
  "steps (loop_body cfg backend t ts st) = steps st @ [last (steps (loop_body cfg backend t ts st))]"
  "qualityBefore (last (steps (loop_body cfg backend t ts st))) = currentQuality st"
  "qualityAfter (last (steps (loop_body cfg backend t ts st))) = currentQuality (loop_body cfg backend t ts st)"
  "step_iteration (last (steps (loop_body cfg backend t ts st))) = iteration st"
  "converged (loop_body cfg backend t ts st)
     = (qualityThreshold cfg \<le> overall (currentQuality (loop_body cfg backend t ts st)))"
  by (simp_all add: loop_body_def Let_def checkConvergence_def split: prod.split)

lemma loop_counts:
  "iteration (refine_loop cfg backend (initial_state backend img)) \<le> maxIterations cfg
   \<and> map step_iteration (steps (refine_loop cfg backend (initial_state backend img)))
       = [0 ..< iteration (refine_loop cfg backend (initial_state backend img))]"
proof (rule refine_loop_invariant
    [where P = "\<lambda>st::LoopState. iteration st \<le> maxIterations cfg
                  \<and> map step_iteration (steps st) = [0 ..< iteration st]"])
  show "iteration (initial_state backend img) \<le> maxIterations cfg \<and>
        map step_iteration (steps (initial_state backend img))
          = [0 ..< iteration (initial_state backend img)]"
    by (simp add: initial_state_def)
next
  fix st :: LoopState and t ts
  assume inv: "iteration st \<le> maxIterations cfg \<and> map step_iteration (steps st) = [0 ..< iteration st]"
    and lt: "iteration st < maxIterations cfg"
  have "map step_iteration (steps (loop_body cfg backend t ts st))
          = map step_iteration (steps st) @ [iteration st]"
    by (subst loop_body_fields(1)) (simp add: loop_body_fields(4))
  with inv lt show "iteration (loop_body cfg backend t ts st) \<le> maxIterations cfg \<and>
        map step_iteration (steps (loop_body cfg backend t ts st))
          = [0 ..< iteration (loop_body cfg backend t ts st)]"
    by simp
qed

lemma loop_steps_bound:
  "length (steps (refine_loop cfg backend (initial_state backend img))) \<le> maxIterations cfg"
proof -
  let ?st = "refine_loop cfg backend (initial_state backend img)"
  from loop_counts [of cfg backend img]
  have "iteration ?st \<le> maxIterations cfg"
    and "length (map step_iteration (steps ?st)) = length [0 ..< iteration ?st]"
    by simp_all
  then show ?thesis by simp
qed

text \<open>
  Claim C5. With \<^verbatim>\<open>maxIterations = N\<close> the loop of \<^verbatim>\<open>refineImage\<close> runs at most
  \<open>N\<close> iterations and the returned list holds at most \<open>N\<close> steps: the loop counter
  ends at most at \<open>N\<close>, and the steps returned are numbered \<open>0, 1, ...\<close> without a gap,
  one per iteration.
\<close>

theorem refineImage_iteration_bound:
  "length (result_steps (refineImage backend img cfg)) \<le> maxIterations cfg
   \<and> iteration (refine_loop cfg backend (initial_state backend img)) \<le> maxIterations cfg
   \<and> map step_iteration (result_steps (refineImage backend img cfg))
       = [0 ..< length (result_steps (refineImage backend img cfg))]"
proof -
  let ?st = "refine_loop cfg backend (initial_state backend img)"
  from loop_counts [of cfg backend img]
  have b: "iteration ?st \<le> maxIterations cfg"
    and m: "map step_iteration (steps ?st) = [0 ..< iteration ?st]"
    by simp_all
  from m have "length (steps ?st) = iteration ?st"
    by (metis length_map length_upt minus_nat.diff_0)
  with b m show ?thesis
    by (simp add: refineImage_def Let_def)
qed

lemma declining_run_values:
  "overall (assessQuality (declining_backend 0 ''img'')) = 0.6
   \<and> overall (final_quality (refineImage declining_backend ''img'' default_refinement_config)) = 0.4
   \<and> totalImprovement (refineImage declining_backend ''img'' default_refinement_config) = - 0.2
   \<and> length (result_steps (refineImage declining_backend ''img'' default_refinement_config)) = 5"
  by code_simp

lemma improving_run_values:
  "list_all (\<lambda>s. overall (qualityBefore s) \<le> overall (qualityAfter s))
     (result_steps (refineImage improving_backend ''img'' default_refinement_config))
   \<and> length (result_steps (refineImage improving_backend ''img'' default_refinement_config)) = 2
   \<and> overall (qualityAfter
        (result_steps (refineImage improving_backend ''img'' default_refinement_config) ! 1)) = 0.9
   \<and> overall (assessQuality (improving_backend 0 ''img'')) = 0.6
   \<and> qualityThreshold default_refinement_config = 0.85
   \<and> maxIterations default_refinement_config = 5"
  by code_simp

theorem refineImage_iteration_bound_witness:
  "length (result_steps (refineImage declining_backend ''img'' default_refinement_config)) = 5
   \<and> maxIterations default_refinement_config = 5"
  using refineImage_iteration_bound [of declining_backend "''img''" default_refinement_config]
    declining_run_values improving_run_values by simp

lemma loop_stops_at_threshold:
  "stops_at_threshold cfg (refine_loop cfg backend (initial_state backend img))"
proof (rule refine_loop_invariant [where P = "stops_at_threshold cfg"])
  show "stops_at_threshold cfg (initial_state backend img)"
    by (simp add: stops_at_threshold_def initial_state_def)
next
  fix st :: LoopState and t ts
  assume inv: "stops_at_threshold cfg st" and nc: "\<not> converged st"
  let ?st' = "loop_body cfg backend t ts st"
  have old: "\<forall>s\<in>set (steps st). overall (qualityAfter s) < qualityThreshold cfg"
  proof (cases "steps st")
    case Nil
    then show ?thesis by simp
  next
    case (Cons s rest)
    with inv nc have "overall (qualityAfter (last (steps st))) < qualityThreshold cfg"
      by (simp add: stops_at_threshold_def)
    moreover from inv have "\<forall>s\<in>set (butlast (steps st)). overall (qualityAfter s) < qualityThreshold cfg"
      by (simp add: stops_at_threshold_def)
    moreover from Cons have "steps st = butlast (steps st) @ [last (steps st)]"
      by simp
    ultimately show ?thesis
      by (metis Un_iff empty_iff empty_set set_ConsD set_append)
  qed
  obtain s' where s': "steps ?st' = steps st @ [s']" "s' = last (steps ?st')"
    using loop_body_fields(1) by blast
  have "butlast (steps ?st') = steps st"
    using s'(1) by (metis butlast_snoc)
  moreover have "converged ?st' = (qualityThreshold cfg \<le> overall (qualityAfter (last (steps ?st'))))"
    by (simp add: loop_body_fields(3,5))
  moreover have "currentQuality ?st' = qualityAfter (last (steps ?st'))"
    by (simp add: loop_body_fields(3))
  moreover have "steps ?st' \<noteq> []"
    using s'(1) by simp
  ultimately show "stops_at_threshold cfg ?st'"
    using old unfolding stops_at_threshold_def by simp
qed

text \<open>
  Claim C6. If the quality assessed in iteration \<open>k\<close> reaches
  \<^verbatim>\<open>qualityThreshold\<close>, the loop ends with that iteration: exactly \<open>k + 1\<close> steps are
  recorded, the result is reported converged, the returned quality is the one assessed in
  iteration \<open>k\<close>, and \<open>k\<close> is below \<^verbatim>\<open>maxIterations\<close>. Iteration \<open>k\<close> is then
  the first to reach the threshold: every earlier one was assessed below it.
\<close>

theorem refineImage_stops_at_threshold:
  assumes "k < length (result_steps (refineImage backend img cfg))"
    and "qualityThreshold cfg \<le> overall (qualityAfter (result_steps (refineImage backend img cfg) ! k))"
  shows "length (result_steps (refineImage backend img cfg)) = k + 1
    \<and> result_converged (refineImage backend img cfg)
    \<and> final_quality (refineImage backend img cfg)
        = qualityAfter (result_steps (refineImage backend img cfg) ! k)
    \<and> k < maxIterations cfg
    \<and> (\<forall>j<k. overall (qualityAfter (result_steps (refineImage backend img cfg) ! j))
                < qualityThreshold cfg)"
proof -
  let ?st = "refine_loop cfg backend (initial_state backend img)"
  have r: "result_steps (refineImage backend img cfg) = steps ?st"
    "result_converged (refineImage backend img cfg) = converged ?st"
    "final_quality (refineImage backend img cfg) = currentQuality ?st"
    by (simp_all add: refineImage_def Let_def)
  have inv: "stops_at_threshold cfg ?st"
    by (rule loop_stops_at_threshold)
  from assms r have k: "k < length (steps ?st)"
    and q: "qualityThreshold cfg \<le> overall (qualityAfter (steps ?st ! k))"
    by simp_all
  have "\<not> k < length (butlast (steps ?st))"
  proof
    assume "k < length (butlast (steps ?st))"
    then have "butlast (steps ?st) ! k \<in> set (butlast (steps ?st))"
      and "butlast (steps ?st) ! k = steps ?st ! k"
      by (rule nth_mem, rule nth_butlast)
    with inv q show False
      unfolding stops_at_threshold_def by fastforce
  qed
  with k have len: "length (steps ?st) = k + 1"
    by simp
  then have ne: "steps ?st \<noteq> []"
    by auto
  with len have lastk: "last (steps ?st) = steps ?st ! k"
    by (simp add: last_conv_nth)
  from inv ne lastk q have "converged ?st" and "currentQuality ?st = qualityAfter (steps ?st ! k)"
    unfolding stops_at_threshold_def by simp_all
  moreover from loop_steps_bound [of cfg backend img] len
  have "k < maxIterations cfg" by simp
  moreover have "overall (qualityAfter (steps ?st ! j)) < qualityThreshold cfg" if "j < k" for j
  proof -
    from that len have j: "j < length (butlast (steps ?st))"
      by simp
    then have "butlast (steps ?st) ! j \<in> set (butlast (steps ?st))"
      and "butlast (steps ?st) ! j = steps ?st ! j"
      by (rule nth_mem, rule nth_butlast)
    with inv show ?thesis
      unfolding stops_at_threshold_def by fastforce
  qed
  ultimately show ?thesis
    using len r by simp
qed

theorem refineImage_stops_at_threshold_witness:
  "1 < length (result_steps (refineImage improving_backend ''img'' default_refinement_config))
   \<and> qualityThreshold default_refinement_config
       \<le> overall (qualityAfter
            (result_steps (refineImage improving_backend ''img'' default_refinement_config) ! 1))
   \<and> length (result_steps (refineImage improving_backend ''img'' default_refinement_config)) = 2
   \<and> result_converged (refineImage improving_backend ''img'' default_refinement_config)"
proof -
  have k: "1 < length (result_steps (refineImage improving_backend ''img'' default_refinement_config))"
    and q: "qualityThreshold default_refinement_config
       \<le> overall (qualityAfter
            (result_steps (refineImage improving_backend ''img'' default_refinement_config) ! 1))"
    using improving_run_values by simp_all
  from refineImage_stops_at_threshold [OF k q] k q show ?thesis by simp
qed

lemma loop_tracks_initial:
  "tracks_initial (assessQuality (backend 0 img))
     (refine_loop cfg backend (initial_state backend img))"
proof (rule refine_loop_invariant [where P = "tracks_initial (assessQuality (backend 0 img))"])
  show "tracks_initial (assessQuality (backend 0 img)) (initial_state backend img)"
    by (simp add: tracks_initial_def initial_state_def)
next
  fix st :: LoopState and t ts
  let ?q0 = "assessQuality (backend 0 img)"
  let ?st' = "loop_body cfg backend t ts st"
  assume inv: "tracks_initial ?q0 st"
  obtain s' where s': "steps ?st' = steps st @ [s']" and l: "s' = last (steps ?st')"
    using loop_body_fields(1) by blast
  have before: "qualityBefore s' = currentQuality st"
    and after: "qualityAfter s' = currentQuality ?st'"
    using l by (simp_all add: loop_body_fields(2,3))
  have ne: "steps ?st' \<noteq> []"
    using s' by simp
  have hd: "qualityBefore (hd (steps ?st')) = ?q0"
  proof (cases "steps st")
    case Nil
    with inv s' before show ?thesis by (simp add: tracks_initial_def)
  next
    case (Cons a as)
    with inv s' show ?thesis by (simp add: tracks_initial_def)
  qed
  have cur: "currentQuality ?st' = qualityAfter (last (steps ?st'))"
    using l after by simp
  have mono: "overall ?q0 \<le> overall (currentQuality ?st')"
    if all: "\<forall>s\<in>set (steps ?st'). overall (qualityBefore s) \<le> overall (qualityAfter s)"
  proof -
    from all s' have "\<forall>s\<in>set (steps st). overall (qualityBefore s) \<le> overall (qualityAfter s)"
      and "overall (qualityBefore s') \<le> overall (qualityAfter s')"
      by simp_all
    with inv before after show ?thesis
      unfolding tracks_initial_def by fastforce
  qed
  from ne hd cur mono show "tracks_initial ?q0 ?st'"
    unfolding tracks_initial_def by blast
qed

text \<open>
  Claim C2, as amended. The reported total improvement is the returned overall score
  minus the overall score of the initial assessment. It is not negative, that is the
  returned score is not below the initial one, whenever no recorded step has a
  \<^verbatim>\<open>qualityAfter.overall\<close> below its \<^verbatim>\<open>qualityBefore.overall\<close>. The engine compares
  no two assessments: the scores are those of the assessment backend.
\<close>

theorem refineImage_total_improvement:
  "totalImprovement (refineImage backend img cfg)
     = overall (final_quality (refineImage backend img cfg)) - overall (assessQuality (backend 0 img))
   \<and> ((\<forall>s\<in>set (result_steps (refineImage backend img cfg)).
          overall (qualityBefore s) \<le> overall (qualityAfter s))
        \<longrightarrow> overall (assessQuality (backend 0 img))
              \<le> overall (final_quality (refineImage backend img cfg))
            \<and> 0 \<le> totalImprovement (refineImage backend img cfg))"
proof -
  let ?st = "refine_loop cfg backend (initial_state backend img)"
  let ?q0 = "assessQuality (backend 0 img)"
  have r: "result_steps (refineImage backend img cfg) = steps ?st"
    "final_quality (refineImage backend img cfg) = currentQuality ?st"
    "totalImprovement (refineImage backend img cfg) = calculateTotalImprovement (steps ?st)"
    by (simp_all add: refineImage_def Let_def)
  have inv: "tracks_initial ?q0 ?st"
    by (rule loop_tracks_initial)
  have total: "calculateTotalImprovement (steps ?st) = overall (currentQuality ?st) - overall ?q0"
  proof (cases "steps ?st")
    case Nil
    with inv show ?thesis
      by (simp add: tracks_initial_def calculateTotalImprovement_def)
  next
    case (Cons a as)
    with inv have "qualityBefore a = ?q0" "currentQuality ?st = qualityAfter (last (a # as))"
      by (simp_all add: tracks_initial_def)
    with Cons show ?thesis
      by (simp add: calculateTotalImprovement_def)
  qed
  from inv have "(\<forall>s\<in>set (steps ?st). overall (qualityBefore s) \<le> overall (qualityAfter s))
                 \<longrightarrow> overall ?q0 \<le> overall (currentQuality ?st)"
    by (simp add: tracks_initial_def)
  with total r show ?thesis by simp
qed

theorem refineImage_total_improvement_witness:
  "overall (assessQuality (improving_backend 0 ''img'')) = 0.6
   \<and> 0.6 \<le> overall (final_quality (refineImage improving_backend ''img'' default_refinement_config))
   \<and> 0 \<le> totalImprovement (refineImage improving_backend ''img'' default_refinement_config)"
proof -
  have "\<forall>s\<in>set (result_steps (refineImage improving_backend ''img'' default_refinement_config)).
          overall (qualityBefore s) \<le> overall (qualityAfter s)"
    using improving_run_values by (simp add: list_all_iff)
  with refineImage_total_improvement [of improving_backend "''img''" default_refinement_config]
    improving_run_values
  show ?thesis by simp
qed

text \<open>
  Claim C2, as stated, fails: with a backend that scores the initial image 0.6 and the
  refined images 0.4, the returned overall score is below the initial one and the total
  improvement is negative.
\<close>

theorem refineImage_quality_can_decrease:
  "overall (final_quality (refineImage declining_backend ''img'' default_refinement_config))
     < overall (assessQuality (declining_backend 0 ''img''))
   \<and> totalImprovement (refineImage declining_backend ''img'' default_refinement_config) < 0"
  using declining_run_values by simp



section \<open>Properties of the adaptive fusion\<close>


















section \<open>Properties of the ensemble generation\<close>








section \<open>Properties of the analysis cache\<close>

lemma cache_key_prefix:
  "take 50 img1 = take 50 img2 \<Longrightarrow>
   generateCacheKey stringify img1 opts = generateCacheKey stringify img2 opts"
  by (simp add: generateCacheKey_def)

lemma analyzeImage_stores:
  "analyzeImage stringify backend c img opts = (r, c') \<Longrightarrow>
   map_of c' (generateCacheKey stringify img opts) = Some r"
  by (auto simp: analyzeImage_def Let_def AList.update_conv' split: option.splits)

lemma analyzeImage_keeps:
  "map_of c k = Some r \<Longrightarrow>
   map_of (snd (analyzeImage stringify backend c img opts)) k = Some r"
  by (auto simp: analyzeImage_def Let_def AList.update_conv' split: option.splits)

lemma cache_after_keeps:
  "map_of c k = Some r \<Longrightarrow> map_of (cache_after stringify calls c) k = Some r"
proof (induction calls arbitrary: c)
  case Nil
  then show ?case by (simp add: cache_after_def)
next
  case (Cons call calls)
  obtain b img opts where call: "call = (b, img, opts)"
    by (cases call)
  from Cons.prems have "map_of (snd (analyzeImage stringify b c img opts)) k = Some r"
    by (rule analyzeImage_keeps)
  from Cons.IH [OF this] call show ?case
    by (simp add: cache_after_def)
qed

lemma analyzeImage_hit:
  "map_of c (generateCacheKey stringify img opts) = Some r \<Longrightarrow>
   analyzeImage stringify backend c img opts = (r, c)"
  by (simp add: analyzeImage_def Let_def)

text \<open>
  Claim C10. The cache key depends on the first fifty characters of the image data and
  on the serialized options only. If a call of \<^verbatim>\<open>analyzeImage\<close> returned \<open>r1\<close>, a
  later call with equal options and an image that has the same first fifty characters
  returns \<open>r1\<close> again, whatever the rest of the image and whatever the backend would
  answer, directly after the first call and also after any further calls of
  \<^verbatim>\<open>analyzeImage\<close> in between (the cache not being cleared).
\<close>

theorem second_call_returns_cached_result:
  assumes "take 50 img1 = take 50 img2"
    and "analyzeImage stringify b1 c img1 opts = (r1, c1)"
  shows "generateCacheKey stringify img1 opts = generateCacheKey stringify img2 opts
     \<and> analyzeImage stringify b2 c1 img2 opts = (r1, c1)
     \<and> fst (analyzeImage stringify b2 (cache_after stringify calls c1) img2 opts) = r1"
proof -
  have k: "generateCacheKey stringify img1 opts = generateCacheKey stringify img2 opts"
    using assms(1) by (rule cache_key_prefix)
  from assms(2) have s: "map_of c1 (generateCacheKey stringify img2 opts) = Some r1"
    using analyzeImage_stores k by metis
  then have "map_of (cache_after stringify calls c1) (generateCacheKey stringify img2 opts) = Some r1"
    by (rule cache_after_keeps)
  then have "analyzeImage stringify b2 (cache_after stringify calls c1) img2 opts
             = (r1, cache_after stringify calls c1)"
    by (rule analyzeImage_hit)
  with k s show ?thesis
    by (simp add: analyzeImage_hit)
qed

lemma sample_cache_values:
  "take 50 image_a = take 50 image_b
   \<and> image_a \<noteq> image_b
   \<and> concepts (fst (analyzeImage sample_stringify (constant_backend ''one'') [] image_a
                      [(''depth'', OStr ''basic'')])) = ''one''
   \<and> concepts (fst (analyzeImage sample_stringify (constant_backend ''two'') [] image_b
                      [(''depth'', OStr ''basic'')])) = ''two''"
  by code_simp

theorem second_call_returns_cached_result_witness:
  "take 50 image_a = take 50 image_b
   \<and> image_a \<noteq> image_b
   \<and> concepts (fst (analyzeImage sample_stringify (constant_backend ''two'') [] image_b
                      [(''depth'', OStr ''basic'')])) = ''two''
   \<and> concepts (fst (analyzeImage sample_stringify (constant_backend ''two'')
                      (snd (analyzeImage sample_stringify (constant_backend ''one'') [] image_a
                              [(''depth'', OStr ''basic'')]))
                      image_b [(''depth'', OStr ''basic'')])) = ''one''"
proof -
  let ?first = "analyzeImage sample_stringify (constant_backend ''one'') [] image_a
                  [(''depth'', OStr ''basic'')]"
  have p: "take 50 image_a = take 50 image_b"
    using sample_cache_values by blast
  have c: "?first = (fst ?first, snd ?first)"
    by simp
  from second_call_returns_cached_result [OF p c, of "constant_backend ''two''" "[]"]
  have "fst (analyzeImage sample_stringify (constant_backend ''two'') (snd ?first) image_b
               [(''depth'', OStr ''basic'')]) = fst ?first"
    by simp
  with sample_cache_values show ?thesis by simp
qed

end
